theory Spec2Isabelle
  imports Complex_Main
begin

section \<open>The NASA NEO pipeline of \<^verbatim>\<open>src/etl/main.py\<close>\<close>

subsection \<open>Python values\<close>

text \<open>
  The payload is whatever \<^verbatim>\<open>resp.json()\<close> decodes: \<^verbatim>\<open>None\<close>, booleans, unbounded
  integers, floats, strings, lists and dictionaries with string keys. Python floats are
  kept abstract (the type parameter \<open>'f\<close>); a dictionary is the list of its items in
  insertion order, looked up with \<open>map_of\<close> (a decoded dictionary has no key twice).
\<close>

datatype 'f json =
    JNull
  | JBool bool
  | JInt int
  | JFloat 'f
  | JStr string
  | JArr "'f json list"
  | JObj "(string \<times> 'f json) list"

text \<open>The exceptions the pipeline can meet; \<open>ExternalError\<close> is one raised inside
  \<^verbatim>\<open>requests\<close> or a cloud client.\<close>

datatype error =
    KeyError string
  | IndexError
  | TypeError
  | AttributeError
  | ValueError
  | OverflowError
  | ExternalError string

definition bindE :: "error + 'a \<Rightarrow> ('a \<Rightarrow> error + 'b) \<Rightarrow> error + 'b" where
  "bindE m f = (case m of Inl e \<Rightarrow> Inl e | Inr x \<Rightarrow> f x)"

subsection \<open>Dates and timestamps\<close>

record date =
  year :: nat
  month :: nat
  day :: nat

record datetime = date +
  hour :: nat
  minute :: nat
  second :: nat
  microsecond :: nat

definition digit_char :: "nat \<Rightarrow> char" where
  "digit_char n = ''0123456789'' ! n"

fun show_nat :: "nat \<Rightarrow> string" where
  "show_nat n = (if n < 10 then [digit_char n] else show_nat (n div 10) @ [digit_char (n mod 10)])"

declare show_nat.simps [simp del]

text \<open>The format \<^verbatim>\<open>{n:0wd}\<close> of a natural number.\<close>

definition zero_pad :: "nat \<Rightarrow> nat \<Rightarrow> string" where
  "zero_pad wd n = replicate (wd - length (show_nat n)) (CHR ''0'') @ show_nat n"

text \<open>\<^verbatim>\<open>str(date)\<close>, that is \<^verbatim>\<open>"%04d-%02d-%02d"\<close>.\<close>

definition str_date :: "'a date_scheme \<Rightarrow> string" where
  "str_date d = zero_pad 4 (year d) @ ''-'' @ zero_pad 2 (month d) @ ''-'' @ zero_pad 2 (day d)"

text \<open>\<^verbatim>\<open>datetime.date()\<close>\<close>

definition date_of :: "datetime \<Rightarrow> date" where
  "date_of t = \<lparr>year = year t, month = month t, day = day t\<rparr>"

text \<open>\<^verbatim>\<open>datetime.isoformat()\<close>: the fraction is left out when the microsecond is 0.\<close>

definition isoformat :: "datetime \<Rightarrow> string" where
  "isoformat t =
     str_date t @ ''T'' @ zero_pad 2 (hour t) @ '':'' @ zero_pad 2 (minute t) @ '':'' @
     zero_pad 2 (second t) @
     (if microsecond t = 0 then [] else ''.'' @ zero_pad 6 (microsecond t))"

subsection \<open>Rows, the world outside, and the environment\<close>

text \<open>The dictionary \<^verbatim>\<open>record\<close> built by \<^verbatim>\<open>transform_records\<close>: eleven fixed keys. The
  values copied from the payload keep whatever type they have there.\<close>

record 'f asteroid_record =
  asteroid_id :: "'f json"
  name :: "'f json"
  absolute_magnitude_h :: 'f
  estimated_diameter_min_km :: 'f
  estimated_diameter_max_km :: 'f
  is_potentially_hazardous :: "'f json"
  close_approach_date :: "'f json"
  relative_velocity_km_s :: 'f
  miss_distance_km :: 'f
  orbiting_body :: "'f json"
  ingestion_timestamp :: string

text \<open>Every call that leaves the process, in the order made. \<open>UploadBlob\<close> carries the
  bucket, the blob path, the value whose \<^verbatim>\<open>json.dumps\<close> text is uploaded, and the content
  type.\<close>

datatype 'f call =
    HttpGet string
  | NewStorageClient
  | UploadBlob "string option" string "'f json" string
  | NewBigQueryClient "string option"
  | InsertRows string "'f asteroid_record list"

text \<open>One constructor for each \<^verbatim>\<open>print\<close> of the source.\<close>

datatype 'f log_line =
    LogStarting
  | LogMissingEnv
  | LogRawSaved string
  | LogTransformed nat
  | LogInsertErrors "'f json list"
  | LogInserted nat string

record 'f world =
  clock_reads :: nat
  calls :: "'f call list"
  out :: "'f log_line list"

definition add_call :: "'f call \<Rightarrow> 'f world \<Rightarrow> 'f world" where
  "add_call c w = w\<lparr>calls := calls w @ [c]\<rparr>"

definition print_line :: "'f log_line \<Rightarrow> 'f world \<Rightarrow> 'f world" where
  "print_line l w = w\<lparr>out := out w @ [l]\<rparr>"

text \<open>
  What the program cannot decide by itself: the \<open>k\<close>-th reading of
  \<^verbatim>\<open>datetime.utcnow()\<close>, the built-in \<^verbatim>\<open>float\<close> on a string and on an integer
  (\<open>None\<close> where it raises), which floats are zero, and the answers of the three services.
\<close>

record 'f env =
  clock :: "nat \<Rightarrow> datetime"
  float_of_str :: "string \<Rightarrow> 'f option"
  float_of_int :: "int \<Rightarrow> 'f option"
  float_nonzero :: "'f \<Rightarrow> bool"
  http_get :: "string \<Rightarrow> error + 'f json"
  storage_client :: "error option"
  upload_from_string :: "string option \<Rightarrow> string \<Rightarrow> 'f json \<Rightarrow> error option"
  bigquery_client :: "string option \<Rightarrow> error option"
  insert_rows_json :: "string \<Rightarrow> 'f asteroid_record list \<Rightarrow> error + 'f json list"

text \<open>The three module-level values read with \<^verbatim>\<open>os.environ.get\<close>.\<close>

record config =
  NASA_API_KEY :: "string option"
  BUCKET_NAME :: "string option"
  BQ_PROJECT :: "string option"

definition BQ_DATASET :: string where
  "BQ_DATASET = ''nasa_neo''"

definition BQ_TABLE :: string where
  "BQ_TABLE = ''raw_neo_feed''"

subsection \<open>The Python operations the source applies to the payload\<close>

text \<open>\<^verbatim>\<open>x[k]\<close> with a string key.\<close>

fun getitem :: "'f json \<Rightarrow> string \<Rightarrow> error + 'f json" where
  "getitem (JObj kvs) k = (case map_of kvs k of None \<Rightarrow> Inl (KeyError k) | Some v \<Rightarrow> Inr v)"
| "getitem _ k = Inl TypeError"

text \<open>\<^verbatim>\<open>x[0]\<close>. A decoded dictionary has string keys only, so \<^verbatim>\<open>0\<close> is never one.\<close>

fun getitem0 :: "'f json \<Rightarrow> error + 'f json" where
  "getitem0 (JArr []) = Inl IndexError"
| "getitem0 (JArr (x # xs)) = Inr x"
| "getitem0 (JStr []) = Inl IndexError"
| "getitem0 (JStr (c # cs)) = Inr (JStr [c])"
| "getitem0 (JObj kvs) = Inl (KeyError ''0'')"
| "getitem0 _ = Inl TypeError"

text \<open>\<^verbatim>\<open>x[k1][k2]...\<close>\<close>

fun getpath :: "'f json \<Rightarrow> string list \<Rightarrow> error + 'f json" where
  "getpath x [] = Inr x"
| "getpath x (k # ks) = bindE (getitem x k) (\<lambda>v. getpath v ks)"

text \<open>\<^verbatim>\<open>x.get(k, default)\<close>: only a dictionary has the method.\<close>

fun dict_get :: "'f json \<Rightarrow> string \<Rightarrow> 'f json \<Rightarrow> error + 'f json" where
  "dict_get (JObj kvs) k dflt = (case map_of kvs k of None \<Rightarrow> Inr dflt | Some v \<Rightarrow> Inr v)"
| "dict_get _ k dflt = Inl AttributeError"

text \<open>The truth value of \<^verbatim>\<open>x\<close> in \<^verbatim>\<open>if x\<close> and \<^verbatim>\<open>not x\<close>.\<close>

fun truthy :: "'f env \<Rightarrow> 'f json \<Rightarrow> bool" where
  "truthy E JNull = False"
| "truthy E (JBool b) = b"
| "truthy E (JInt n) = (n \<noteq> 0)"
| "truthy E (JFloat x) = float_nonzero E x"
| "truthy E (JStr s) = (s \<noteq> [])"
| "truthy E (JArr xs) = (xs \<noteq> [])"
| "truthy E (JObj kvs) = (kvs \<noteq> [])"

text \<open>The items \<^verbatim>\<open>for obj in x\<close> visits: the elements of a list, the keys of a dictionary,
  the characters of a string.\<close>

fun py_iter :: "'f json \<Rightarrow> error + 'f json list" where
  "py_iter (JArr xs) = Inr xs"
| "py_iter (JObj kvs) = Inr (map (\<lambda>kv. JStr (fst kv)) kvs)"
| "py_iter (JStr s) = Inr (map (\<lambda>c. JStr [c]) s)"
| "py_iter _ = Inl TypeError"

text \<open>The built-in \<^verbatim>\<open>float(x)\<close>: \<^verbatim>\<open>bool\<close> is a subclass of \<^verbatim>\<open>int\<close>.\<close>

fun py_float :: "'f env \<Rightarrow> 'f json \<Rightarrow> error + 'f" where
  "py_float E (JFloat x) = Inr x"
| "py_float E (JInt n) = (case float_of_int E n of None \<Rightarrow> Inl OverflowError | Some x \<Rightarrow> Inr x)"
| "py_float E (JBool b) =
     (case float_of_int E (if b then 1 else 0) of None \<Rightarrow> Inl OverflowError | Some x \<Rightarrow> Inr x)"
| "py_float E (JStr s) = (case float_of_str E s of None \<Rightarrow> Inl ValueError | Some x \<Rightarrow> Inr x)"
| "py_float E _ = Inl TypeError"

text \<open>A value of the configuration inside an f-string.\<close>

definition fmt_opt :: "string option \<Rightarrow> string" where
  "fmt_opt v = (case v of None \<Rightarrow> ''None'' | Some s \<Rightarrow> s)"

text \<open>The truth value of a configuration value: \<^verbatim>\<open>None\<close> and the empty string are false.\<close>

definition truthy_opt :: "string option \<Rightarrow> bool" where
  "truthy_opt v = (case v of None \<Rightarrow> False | Some s \<Rightarrow> s \<noteq> [])"

subsection \<open>\<^verbatim>\<open>transform_records\<close>\<close>

text \<open>The dictionary display of lines 51 to 69, its entries evaluated in order; \<open>ts\<close> is the
  text of the last entry.\<close>

definition record_of :: "'f env \<Rightarrow> 'f json \<Rightarrow> 'f json \<Rightarrow> string \<Rightarrow> error + 'f asteroid_record" where
  "record_of E obj approach ts =
     bindE (getitem obj ''neo_reference_id'') (\<lambda>v_id.
     bindE (getitem obj ''name'') (\<lambda>v_name.
     bindE (bindE (getitem obj ''absolute_magnitude_h'') (py_float E)) (\<lambda>v_h.
     bindE (bindE (getpath obj [''estimated_diameter'', ''kilometers'', ''estimated_diameter_min''])
              (py_float E)) (\<lambda>v_min.
     bindE (bindE (getpath obj [''estimated_diameter'', ''kilometers'', ''estimated_diameter_max''])
              (py_float E)) (\<lambda>v_max.
     bindE (getitem obj ''is_potentially_hazardous_asteroid'') (\<lambda>v_haz.
     bindE (getitem approach ''close_approach_date'') (\<lambda>v_date.
     bindE (bindE (getpath approach [''relative_velocity'', ''kilometers_per_second''])
              (py_float E)) (\<lambda>v_vel.
     bindE (bindE (getpath approach [''miss_distance'', ''kilometers'']) (py_float E)) (\<lambda>v_miss.
     bindE (getitem approach ''orbiting_body'') (\<lambda>v_body.
     Inr \<lparr>asteroid_id = v_id, name = v_name, absolute_magnitude_h = v_h,
          estimated_diameter_min_km = v_min, estimated_diameter_max_km = v_max,
          is_potentially_hazardous = v_haz, close_approach_date = v_date,
          relative_velocity_km_s = v_vel, miss_distance_km = v_miss,
          orbiting_body = v_body, ingestion_timestamp = ts\<rparr>))))))))))"

text \<open>The clock is read for the last entry, so only when the ten before it were built.\<close>

definition build_record ::
  "'f env \<Rightarrow> 'f json \<Rightarrow> 'f json \<Rightarrow> 'f world \<Rightarrow> (error + 'f asteroid_record) \<times> 'f world" where
  "build_record E obj approach w =
     (case record_of E obj approach (isoformat (clock E (clock_reads w))) of
        Inl e \<Rightarrow> (Inl e, w)
      | Inr r \<Rightarrow> (Inr r, w\<lparr>clock_reads := Suc (clock_reads w)\<rparr>))"

text \<open>The loop of lines 45 to 71 over the objects still to visit, with the list
  \<^verbatim>\<open>records\<close> built so far.\<close>

fun transform_objs ::
  "'f env \<Rightarrow> 'f json list \<Rightarrow> 'f asteroid_record list \<Rightarrow> 'f world
    \<Rightarrow> (error + 'f asteroid_record list) \<times> 'f world" where
  "transform_objs E [] records w = (Inr records, w)"
| "transform_objs E (obj # rest) records w =
     (case getitem obj ''close_approach_data'' of
        Inl e \<Rightarrow> (Inl e, w)
      | Inr cad \<Rightarrow>
          if \<not> truthy E cad then transform_objs E rest records w
          else (case getitem0 cad of
                  Inl e \<Rightarrow> (Inl e, w)
                | Inr approach \<Rightarrow>
                    (case build_record E obj approach w of
                       (Inl e, w') \<Rightarrow> (Inl e, w')
                     | (Inr r, w') \<Rightarrow> transform_objs E rest (records @ [r]) w')))"

text \<open>Line 43: \<^verbatim>\<open>data["near_earth_objects"].get(str(date), [])\<close>\<close>

definition neos_of :: "'f json \<Rightarrow> date \<Rightarrow> error + 'f json" where
  "neos_of data d = bindE (getitem data ''near_earth_objects'') (\<lambda>m. dict_get m (str_date d) (JArr []))"

definition transform_records ::
  "'f env \<Rightarrow> 'f json \<Rightarrow> date \<Rightarrow> 'f world \<Rightarrow> (error + 'f asteroid_record list) \<times> 'f world" where
  "transform_records E data d w =
     (case bindE (neos_of data d) py_iter of
        Inl e \<Rightarrow> (Inl e, w)
      | Inr objs \<Rightarrow>
          (case transform_objs E objs [] w of
             (Inl e, w') \<Rightarrow> (Inl e, w')
           | (Inr records, w') \<Rightarrow>
               (Inr records, print_line (LogTransformed (length records)) w')))"

subsection \<open>\<^verbatim>\<open>fetch_nasa_data\<close>, \<^verbatim>\<open>save_raw_to_gcs\<close>, \<^verbatim>\<open>load_to_bigquery\<close>\<close>

definition feed_url :: "config \<Rightarrow> date \<Rightarrow> string" where
  "feed_url cfg today =
     ''https://api.nasa.gov/neo/rest/v1/feed'' @
     ''?start_date='' @ str_date today @ ''&end_date='' @ str_date today @
     ''&api_key='' @ fmt_opt (NASA_API_KEY cfg)"

text \<open>\<open>http_get\<close> stands for \<^verbatim>\<open>requests.get\<close>, \<^verbatim>\<open>raise_for_status\<close> and \<^verbatim>\<open>resp.json()\<close>
  together: any of them may raise.\<close>

definition fetch_nasa_data ::
  "'f env \<Rightarrow> config \<Rightarrow> 'f world \<Rightarrow> (error + 'f json \<times> date) \<times> 'f world" where
  "fetch_nasa_data E cfg w =
     (let today = date_of (clock E (clock_reads w));
          w1 = w\<lparr>clock_reads := Suc (clock_reads w)\<rparr>;
          url = feed_url cfg today;
          w2 = add_call (HttpGet url) w1
      in case http_get E url of
           Inl e \<Rightarrow> (Inl e, w2)
         | Inr data \<Rightarrow> (Inr (data, today), w2))"

definition blob_path :: "date \<Rightarrow> string" where
  "blob_path d =
     ''raw/neo/'' @ show_nat (year d) @ ''/'' @ zero_pad 2 (month d) @ ''/'' @
     zero_pad 2 (day d) @ ''/neo_'' @ str_date d @ ''.json''"

definition save_raw_to_gcs ::
  "'f env \<Rightarrow> config \<Rightarrow> 'f json \<Rightarrow> date \<Rightarrow> 'f world \<Rightarrow> (error + unit) \<times> 'f world" where
  "save_raw_to_gcs E cfg data d w =
     (let w1 = add_call NewStorageClient w
      in case storage_client E of
           Some e \<Rightarrow> (Inl e, w1)
         | None \<Rightarrow>
             (let path = blob_path d;
                  w2 = add_call (UploadBlob (BUCKET_NAME cfg) path data ''application/json'') w1
              in case upload_from_string E (BUCKET_NAME cfg) path data of
                   Some e \<Rightarrow> (Inl e, w2)
                 | None \<Rightarrow>
                     (Inr (), print_line
                        (LogRawSaved (''gs://'' @ fmt_opt (BUCKET_NAME cfg) @ ''/'' @ path)) w2)))"

definition table_id :: "config \<Rightarrow> string" where
  "table_id cfg = fmt_opt (BQ_PROJECT cfg) @ ''.'' @ BQ_DATASET @ ''.'' @ BQ_TABLE"

definition load_to_bigquery ::
  "'f env \<Rightarrow> config \<Rightarrow> 'f asteroid_record list \<Rightarrow> 'f world \<Rightarrow> (error + unit) \<times> 'f world" where
  "load_to_bigquery E cfg records w =
     (let w1 = add_call (NewBigQueryClient (BQ_PROJECT cfg)) w
      in case bigquery_client E (BQ_PROJECT cfg) of
           Some e \<Rightarrow> (Inl e, w1)
         | None \<Rightarrow>
             (let w2 = add_call (InsertRows (table_id cfg) records) w1
              in case insert_rows_json E (table_id cfg) records of
                   Inl e \<Rightarrow> (Inl e, w2)
                 | Inr errors \<Rightarrow>
                     if errors \<noteq> [] then (Inr (), print_line (LogInsertErrors errors) w2)
                     else (Inr (), print_line (LogInserted (length records) (table_id cfg)) w2)))"

subsection \<open>\<^verbatim>\<open>etl_nasa_neo\<close>\<close>

text \<open>The body of a response is a plain text or the \<^verbatim>\<open>json.dumps\<close> text of a value.\<close>

datatype 'f body = PlainText string | JsonDumps "'f json"

record 'f response =
  body :: "'f body"
  status :: nat
  headers :: "(string \<times> string) list"

definition response_body :: "'f asteroid_record list \<Rightarrow> date \<Rightarrow> 'f json" where
  "response_body records d =
     JObj [(''status'', JStr ''success''),
           (''rows_inserted'', JInt (int (length records))),
           (''date'', JStr (str_date d))]"

definition success_response :: "'f asteroid_record list \<Rightarrow> date \<Rightarrow> 'f response" where
  "success_response records d =
     \<lparr>body = JsonDumps (response_body records d), status = 200,
      headers = [(''Content-Type'', ''application/json'')]\<rparr>"

definition missing_env_response :: "'f response" where
  "missing_env_response =
     \<lparr>body = PlainText ''Missing required environment variables'', status = 500, headers = []\<rparr>"

definition etl_nasa_neo ::
  "'f env \<Rightarrow> config \<Rightarrow> 'r \<Rightarrow> 'f world \<Rightarrow> (error + 'f response) \<times> 'f world" where
  "etl_nasa_neo E cfg request w0 =
     (let w = print_line LogStarting w0
      in if \<not> (truthy_opt (NASA_API_KEY cfg) \<and> truthy_opt (BUCKET_NAME cfg) \<and>
                truthy_opt (BQ_PROJECT cfg))
         then (Inr missing_env_response, print_line LogMissingEnv w)
         else
           (case fetch_nasa_data E cfg w of
              (Inl e, w1) \<Rightarrow> (Inl e, w1)
            | (Inr (data, d), w1) \<Rightarrow>
                (case save_raw_to_gcs E cfg data d w1 of
                   (Inl e, w2) \<Rightarrow> (Inl e, w2)
                 | (Inr u, w2) \<Rightarrow>
                     (case transform_records E data d w2 of
                        (Inl e, w3) \<Rightarrow> (Inl e, w3)
                      | (Inr records, w3) \<Rightarrow>
                          (case (if records \<noteq> [] then load_to_bigquery E cfg records w3
                                 else (Inr (), w3)) of
                             (Inl e, w4) \<Rightarrow> (Inl e, w4)
                           | (Inr u', w4) \<Rightarrow> (Inr (success_response records d), w4))))))"

subsection \<open>The words of the specification\<close>

text \<open>The first close-approach entry of an object: \<^verbatim>\<open>obj["close_approach_data"][0]\<close>.\<close>

definition first_approach :: "'f json \<Rightarrow> error + 'f json" where
  "first_approach obj = bindE (getitem obj ''close_approach_data'') getitem0"

text \<open>The object has a close-approach sequence that is not empty (not false, for a value
  that is no list).\<close>

definition has_approach :: "'f env \<Rightarrow> 'f json \<Rightarrow> bool" where
  "has_approach E obj =
     (case getitem obj ''close_approach_data'' of Inl e \<Rightarrow> False | Inr cad \<Rightarrow> truthy E cad)"

text \<open>The object's close-approach list is the empty list.\<close>

definition empty_approach_list :: "'f json \<Rightarrow> bool" where
  "empty_approach_list obj = (getitem obj ''close_approach_data'' = Inr (JArr []))"

text \<open>
  Section 4.3 of the specification: the record combines the identifier, name, magnitude,
  diameter bounds and hazard flag of the object with the approach date, relative velocity,
  miss distance and orbiting body of its first close-approach entry, the five numeric
  fields coerced to floating point.
\<close>

definition combines :: "'f env \<Rightarrow> 'f json \<Rightarrow> 'f asteroid_record \<Rightarrow> bool" where
  "combines E obj r =
     (case first_approach obj of
        Inl e \<Rightarrow> False
      | Inr approach \<Rightarrow>
          getitem obj ''neo_reference_id'' = Inr (asteroid_id r) \<and>
          getitem obj ''name'' = Inr (name r) \<and>
          bindE (getitem obj ''absolute_magnitude_h'') (py_float E) = Inr (absolute_magnitude_h r) \<and>
          bindE (getpath obj [''estimated_diameter'', ''kilometers'', ''estimated_diameter_min''])
            (py_float E) = Inr (estimated_diameter_min_km r) \<and>
          bindE (getpath obj [''estimated_diameter'', ''kilometers'', ''estimated_diameter_max''])
            (py_float E) = Inr (estimated_diameter_max_km r) \<and>
          getitem obj ''is_potentially_hazardous_asteroid'' = Inr (is_potentially_hazardous r) \<and>
          getitem approach ''close_approach_date'' = Inr (close_approach_date r) \<and>
          bindE (getpath approach [''relative_velocity'', ''kilometers_per_second''])
            (py_float E) = Inr (relative_velocity_km_s r) \<and>
          bindE (getpath approach [''miss_distance'', ''kilometers''])
            (py_float E) = Inr (miss_distance_km r) \<and>
          getitem approach ''orbiting_body'' = Inr (orbiting_body r))"

text \<open>
  The fields the transformer requires. Of an object: the lookups of lines 47 to 61, with
  the dictionaries on the way to a nested field. Of its first close-approach entry: those
  of lines 62 to 67.
\<close>

definition object_fields :: "string list list" where
  "object_fields =
     [[''close_approach_data''],
      [''neo_reference_id''],
      [''name''],
      [''absolute_magnitude_h''],
      [''estimated_diameter''],
      [''estimated_diameter'', ''kilometers''],
      [''estimated_diameter'', ''kilometers'', ''estimated_diameter_min''],
      [''estimated_diameter'', ''kilometers'', ''estimated_diameter_max''],
      [''is_potentially_hazardous_asteroid'']]"

definition approach_fields :: "string list list" where
  "approach_fields =
     [[''close_approach_date''],
      [''relative_velocity''],
      [''relative_velocity'', ''kilometers_per_second''],
      [''miss_distance''],
      [''miss_distance'', ''kilometers''],
      [''orbiting_body'']]"

text \<open>The field at the end of the path is missing: the lookup along the path ends in a
  \<^verbatim>\<open>KeyError\<close>.\<close>

definition lacks :: "'f json \<Rightarrow> string list \<Rightarrow> bool" where
  "lacks x p = (case getpath x p of Inl (KeyError k) \<Rightarrow> True | _ \<Rightarrow> False)"

text \<open>An object that misses a required field: its close-approach data, or, its
  close-approach sequence not being empty, a field of the object or of the first entry.\<close>

definition missing_required :: "'f env \<Rightarrow> 'f json \<Rightarrow> bool" where
  "missing_required E obj =
     (lacks obj [''close_approach_data''] \<or>
      (has_approach E obj \<and>
       (list_ex (lacks obj) object_fields \<or>
        (case first_approach obj of
           Inl e \<Rightarrow> False
         | Inr approach \<Rightarrow> list_ex (lacks approach) approach_fields))))"

text \<open>Taking a field out of a value: the key at the end of the path is removed from the
  dictionary it is in. \<open>del_approach_path\<close> does so in the first close-approach entry.\<close>

fun del_key :: "string \<Rightarrow> 'f json \<Rightarrow> 'f json" where
  "del_key k (JObj kvs) = JObj (filter (\<lambda>kv. fst kv \<noteq> k) kvs)"
| "del_key k x = x"

fun upd_key :: "string \<Rightarrow> ('f json \<Rightarrow> 'f json) \<Rightarrow> 'f json \<Rightarrow> 'f json" where
  "upd_key k f (JObj kvs) = JObj (map (\<lambda>kv. if fst kv = k then (k, f (snd kv)) else kv) kvs)"
| "upd_key k f x = x"

fun upd_first :: "('f json \<Rightarrow> 'f json) \<Rightarrow> 'f json \<Rightarrow> 'f json" where
  "upd_first f (JArr (x # xs)) = JArr (f x # xs)"
| "upd_first f x = x"

fun del_path :: "string list \<Rightarrow> 'f json \<Rightarrow> 'f json" where
  "del_path [] x = x"
| "del_path [k] x = del_key k x"
| "del_path (k # ks) x = upd_key k (del_path ks) x"

definition del_approach_path :: "string list \<Rightarrow> 'f json \<Rightarrow> 'f json" where
  "del_approach_path p obj = upd_key ''close_approach_data'' (upd_first (del_path p)) obj"

subsection \<open>The example of the specification, and variations of it\<close>

text \<open>
  For the examples a float is the decimal number it is written as: \<^verbatim>\<open>float("12.4")\<close> and
  the literal \<^verbatim>\<open>12.4\<close> are both \<open>62 / 5\<close>. \<open>decimal_of_string\<close> reads a sign, digits
  and at most one point; the other spellings \<^verbatim>\<open>float\<close> accepts (exponents, \<^verbatim>\<open>inf\<close>,
  \<^verbatim>\<open>nan\<close>, underscores, blanks around) do not occur in the examples.
\<close>

definition digit_val :: "char \<Rightarrow> nat option" where
  "digit_val c =
     map_of [(CHR ''0'', 0), (CHR ''1'', 1), (CHR ''2'', 2), (CHR ''3'', 3), (CHR ''4'', 4),
             (CHR ''5'', 5), (CHR ''6'', 6), (CHR ''7'', 7), (CHR ''8'', 8), (CHR ''9'', 9)] c"

fun nat_of_digits :: "string \<Rightarrow> nat \<Rightarrow> nat option" where
  "nat_of_digits [] acc = Some acc"
| "nat_of_digits (c # cs) acc =
     (case digit_val c of None \<Rightarrow> None | Some v \<Rightarrow> nat_of_digits cs (10 * acc + v))"

definition unsigned_decimal :: "string \<Rightarrow> rat option" where
  "unsigned_decimal s =
     (let ip = takeWhile (\<lambda>c. c \<noteq> CHR ''.'') s;
          fp = drop 1 (dropWhile (\<lambda>c. c \<noteq> CHR ''.'') s)
      in if ip = [] \<and> fp = [] then None
         else case nat_of_digits (ip @ fp) 0 of
                None \<Rightarrow> None
              | Some n \<Rightarrow> Some (of_nat n / of_nat (10 ^ length fp)))"

definition decimal_of_string :: "string \<Rightarrow> rat option" where
  "decimal_of_string s =
     (case s of
        [] \<Rightarrow> None
      | c # cs \<Rightarrow>
          if c = CHR ''-'' then map_option uminus (unsigned_decimal cs)
          else if c = CHR ''+'' then unsigned_decimal cs
          else unsigned_decimal s)"

text \<open>A clock that advances by a millisecond from one reading to the next.\<close>

definition example_clock :: "nat \<Rightarrow> datetime" where
  "example_clock k =
     \<lparr>year = 2024, month = 5, day = 1, hour = 6, minute = 0, second = 0,
      microsecond = 1000 * k\<rparr>"

definition may_first :: date where
  "may_first = \<lparr>year = 2024, month = 5, day = 1\<rparr>"

definition example_approach :: "rat json" where
  "example_approach =
     JObj [(''close_approach_date'', JStr ''2024-05-01''),
           (''relative_velocity'', JObj [(''kilometers_per_second'', JStr ''12.4'')]),
           (''miss_distance'', JObj [(''kilometers'', JStr ''450000'')]),
           (''orbiting_body'', JStr ''Earth'')]"

definition example_object :: "rat json" where
  "example_object =
     JObj [(''neo_reference_id'', JStr ''2440012''),
           (''name'', JStr ''12 Foo''),
           (''absolute_magnitude_h'', JStr ''19.3''),
           (''estimated_diameter'',
              JObj [(''kilometers'',
                JObj [(''estimated_diameter_min'', JFloat (3 / 10)),
                      (''estimated_diameter_max'', JFloat (7 / 10))])]),
           (''is_potentially_hazardous_asteroid'', JBool False),
           (''close_approach_data'', JArr [example_approach])]"

definition feed_of :: "rat json list \<Rightarrow> rat json" where
  "feed_of objs = JObj [(''near_earth_objects'', JObj [(''2024-05-01'', JArr objs)])]"

definition example_payload :: "rat json" where
  "example_payload = feed_of [example_object]"

definition example_record :: "string \<Rightarrow> rat asteroid_record" where
  "example_record ts =
     \<lparr>asteroid_id = JStr ''2440012'', name = JStr ''12 Foo'', absolute_magnitude_h = 193 / 10,
      estimated_diameter_min_km = 3 / 10, estimated_diameter_max_km = 7 / 10,
      is_potentially_hazardous = JBool False, close_approach_date = JStr ''2024-05-01'',
      relative_velocity_km_s = 62 / 5, miss_distance_km = 450000,
      orbiting_body = JStr ''Earth'', ingestion_timestamp = ts\<rparr>"

text \<open>An object with no close approach, and with nothing else but its identifier.\<close>

definition bare_object :: "rat json" where
  "bare_object = JObj [(''neo_reference_id'', JStr ''3542519''), (''close_approach_data'', JArr [])]"

text \<open>The warehouse's complaint about the first row of a batch.\<close>

definition row_error :: "rat json" where
  "row_error = JObj [(''index'', JInt 0), (''errors'', JArr [JObj [(''reason'', JStr ''invalid'')]])]"

text \<open>The feed answers \<open>payload\<close>, the warehouse answers the row errors \<open>errors\<close> and
  nothing raises; \<^verbatim>\<open>float\<close> of an integer overflows beyond the largest double.\<close>

definition example_env :: "rat json \<Rightarrow> rat json list \<Rightarrow> rat env" where
  "example_env payload errors =
     \<lparr>clock = example_clock,
      float_of_str = decimal_of_string,
      float_of_int = (\<lambda>n. if \<bar>n\<bar> < 2 ^ 1024 - 2 ^ 970 then Some (of_int n) else None),
      float_nonzero = (\<lambda>x. x \<noteq> 0),
      http_get = (\<lambda>url. Inr payload),
      storage_client = None,
      upload_from_string = (\<lambda>b p d. None),
      bigquery_client = (\<lambda>p. None),
      insert_rows_json = (\<lambda>t rows. Inr errors)\<rparr>"

definition example_config :: config where
  "example_config =
     \<lparr>NASA_API_KEY = Some ''DEMO_KEY'', BUCKET_NAME = Some ''neo-raw'',
      BQ_PROJECT = Some ''neo-project''\<rparr>"

definition no_bucket_config :: config where
  "no_bucket_config = example_config\<lparr>BUCKET_NAME := None\<rparr>"

text \<open>A feed with no date at all.\<close>

definition empty_feed :: "rat json" where
  "empty_feed = JObj [(''near_earth_objects'', JObj [])]"

definition may_second :: date where
  "may_second = \<lparr>year = 2024, month = 5, day = 2\<rparr>"

definition fresh_world :: "rat world" where
  "fresh_world = \<lparr>clock_reads = 0, calls = [], out = []\<rparr>"

section \<open>Properties\<close>

subsection \<open>Auxiliary facts\<close>

lemma bindE_simps [simp]:
  "bindE (Inl e) f = Inl e"
  "bindE (Inr x) f = f x"
  by (simp_all add: bindE_def)

lemma bindE_eq_Inr: "bindE m f = Inr y \<longleftrightarrow> (\<exists>x. m = Inr x \<and> f x = Inr y)"
  by (cases m) simp_all

lemma record_of_combines:
  assumes "first_approach obj = Inr approach" and "record_of E obj approach ts = Inr r"
  shows "combines E obj r"
  using assms unfolding combines_def record_of_def
  by (auto simp: bindE_eq_Inr)

lemma build_record_Inr:
  "build_record E obj approach w = (Inr r, w') \<Longrightarrow>
     record_of E obj approach (isoformat (clock E (clock_reads w))) = Inr r \<and>
     w' = w\<lparr>clock_reads := Suc (clock_reads w)\<rparr>"
  by (auto simp: build_record_def split: sum.splits)

lemma record_of_timestamp: "record_of E obj approach ts = Inr r \<Longrightarrow> ingestion_timestamp r = ts"
  unfolding record_of_def by (auto simp: bindE_eq_Inr)

lemma transform_objs_Inr:
  "transform_objs E objs acc w = (Inr recs, w') \<Longrightarrow>
     \<exists>new. recs = acc @ new \<and>
           list_all2 (combines E) (filter (has_approach E) objs) new \<and>
           map ingestion_timestamp new =
             map (\<lambda>k. isoformat (clock E k)) [clock_reads w ..< clock_reads w + length new] \<and>
           w' = w\<lparr>clock_reads := clock_reads w + length new\<rparr>"
proof (induction objs arbitrary: acc w)
  case Nil
  then show ?case by simp
next
  case (Cons obj rest)
  show ?case
  proof (cases "getitem obj ''close_approach_data''")
    case (Inl e)
    with Cons.prems show ?thesis by simp
  next
    case (Inr cad)
    show ?thesis
    proof (cases "truthy E cad")
      case False
      with Inr Cons.prems have "transform_objs E rest acc w = (Inr recs, w')" by simp
      from Cons.IH[OF this] False Inr show ?thesis by (simp add: has_approach_def)
    next
      case True
      with Inr Cons.prems obtain approach r w1 where
        a: "getitem0 cad = Inr approach" and
        b: "build_record E obj approach w = (Inr r, w1)" and
        c: "transform_objs E rest (acc @ [r]) w1 = (Inr recs, w')"
        by (auto split: sum.splits prod.splits)
      from build_record_Inr[OF b] have
        ro: "record_of E obj approach (isoformat (clock E (clock_reads w))) = Inr r" and
        w1: "w1 = w\<lparr>clock_reads := Suc (clock_reads w)\<rparr>" by simp_all
      have fa: "first_approach obj = Inr approach" using Inr a by (simp add: first_approach_def)
      from Cons.IH[OF c] obtain new where
        n1: "recs = (acc @ [r]) @ new" and
        n2: "list_all2 (combines E) (filter (has_approach E) rest) new" and
        n3: "map ingestion_timestamp new =
               map (\<lambda>k. isoformat (clock E k)) [clock_reads w1 ..< clock_reads w1 + length new]" and
        n4: "w' = w1\<lparr>clock_reads := clock_reads w1 + length new\<rparr>" by blast
      have ha: "has_approach E obj" using Inr True by (simp add: has_approach_def)
      have "recs = acc @ (r # new)" using n1 by simp
      moreover have "list_all2 (combines E) (filter (has_approach E) (obj # rest)) (r # new)"
        using ha n2 record_of_combines[OF fa ro] by simp
      moreover have "map ingestion_timestamp (r # new) =
             map (\<lambda>k. isoformat (clock E k)) [clock_reads w ..< clock_reads w + length (r # new)]"
      proof -
        have "[clock_reads w ..< clock_reads w + length (r # new)] =
                clock_reads w # [clock_reads w1 ..< clock_reads w1 + length new]"
          using w1 by (simp add: upt_conv_Cons del: upt_Suc)
        then show ?thesis using n3 record_of_timestamp[OF ro] by simp
      qed
      moreover have "w' = w\<lparr>clock_reads := clock_reads w + length (r # new)\<rparr>"
        using n4 w1 by simp
      ultimately show ?thesis by blast
    qed
  qed
qed


lemma transform_records_JArr:
  "neos_of data d = Inr (JArr objs) \<Longrightarrow>
     transform_records E data d w =
       (case transform_objs E objs [] w of
          (Inl e, w') \<Rightarrow> (Inl e, w')
        | (Inr records, w') \<Rightarrow> (Inr records, print_line (LogTransformed (length records)) w'))"
  by (simp add: transform_records_def)

lemma transform_records_Inr:
  assumes "transform_records E data d w = (Inr recs, w')" and "neos_of data d = Inr (JArr objs)"
  shows "list_all2 (combines E) (filter (has_approach E) objs) recs"
    and "map ingestion_timestamp recs =
           map (\<lambda>k. isoformat (clock E k)) [clock_reads w ..< clock_reads w + length recs]"
    and "w' = print_line (LogTransformed (length recs)) (w\<lparr>clock_reads := clock_reads w + length recs\<rparr>)"
proof -
  from assms obtain w1 where t: "transform_objs E objs [] w = (Inr recs, w1)"
    and w': "w' = print_line (LogTransformed (length recs)) w1"
    by (auto simp: transform_records_JArr split: prod.splits sum.splits)
  from transform_objs_Inr[OF t] w'
  show "list_all2 (combines E) (filter (has_approach E) objs) recs"
    and "map ingestion_timestamp recs =
           map (\<lambda>k. isoformat (clock E k)) [clock_reads w ..< clock_reads w + length recs]"
    and "w' = print_line (LogTransformed (length recs)) (w\<lparr>clock_reads := clock_reads w + length recs\<rparr>)"
    by auto
qed

lemma str_date_may_first: "str_date may_first = ''2024-05-01''"
  by (simp add: str_date_def may_first_def zero_pad_def show_nat.simps digit_char_def)

lemma neos_of_feed: "neos_of (feed_of objs) may_first = Inr (JArr objs)"
  by (simp add: neos_of_def feed_of_def str_date_may_first)

lemma decimal_examples:
  "decimal_of_string ''19.3'' = Some (193 / 10)"
  "decimal_of_string ''12.4'' = Some (62 / 5)"
  "decimal_of_string ''450000'' = Some 450000"
  by (simp_all add: decimal_of_string_def unsigned_decimal_def digit_val_def)

lemma first_approach_example: "first_approach example_object = Inr example_approach"
  by (simp add: first_approach_def example_object_def)

lemma record_of_example:
  "record_of (example_env p errs) example_object example_approach ts = Inr (example_record ts)"
  by (simp add: record_of_def example_object_def example_approach_def example_env_def
      decimal_examples example_record_def)

lemma has_approach_example: "has_approach (example_env p errs) example_object"
  by (simp add: has_approach_def example_object_def)

lemma transform_example:
  "transform_records (example_env p errs) example_payload may_first w =
     (Inr [example_record (isoformat (example_clock (clock_reads w)))],
      print_line (LogTransformed 1) (w\<lparr>clock_reads := Suc (clock_reads w)\<rparr>))"
proof -
  have cad: "getitem example_object ''close_approach_data'' = Inr (JArr [example_approach])"
    by (simp add: example_object_def)
  have "clock (example_env p errs) = example_clock" by (simp add: example_env_def)
  then show ?thesis
    by (simp add: transform_records_JArr[OF neos_of_feed] example_payload_def cad
        build_record_def record_of_example)
qed

lemma isoformat_example_clock_0: "isoformat (example_clock 0) = ''2024-05-01T06:00:00''"
  by (simp add: isoformat_def example_clock_def str_date_def zero_pad_def show_nat.simps digit_char_def)

lemma transform_records_success:
  assumes "transform_records E data d w = (Inr recs, w')"
  shows "\<exists>objs. bindE (neos_of data d) py_iter = Inr objs \<and>
           list_all2 (combines E) (filter (has_approach E) objs) recs \<and>
           map ingestion_timestamp recs =
             map (\<lambda>k. isoformat (clock E k)) [clock_reads w ..< clock_reads w + length recs] \<and>
           w' = print_line (LogTransformed (length recs))
                  (w\<lparr>clock_reads := clock_reads w + length recs\<rparr>)"
proof -
  from assms obtain objs w1 where i: "bindE (neos_of data d) py_iter = Inr objs"
    and t: "transform_objs E objs [] w = (Inr recs, w1)"
    and w': "w' = print_line (LogTransformed (length recs)) w1"
    by (auto simp: transform_records_def split: prod.splits sum.splits)
  from transform_objs_Inr[OF t] i w' show ?thesis by auto
qed

lemma isoformat_example_clock_1: "isoformat (example_clock (Suc 0)) = ''2024-05-01T06:00:00.001000''"
  by code_simp

lemma str_date_may_second: "str_date may_second = ''2024-05-02''"
  by (simp add: str_date_def may_second_def zero_pad_def show_nat.simps digit_char_def)

lemma transform_objs_skip_empty:
  "transform_objs E (filter (\<lambda>x. \<not> empty_approach_list x) objs) acc w = transform_objs E objs acc w"
proof (induction objs arbitrary: acc w)
  case Nil
  show ?case by simp
next
  case (Cons obj rest)
  show ?case
  proof (cases "empty_approach_list obj")
    case True
    then show ?thesis using Cons.IH by (simp add: empty_approach_list_def)
  next
    case False
    then show ?thesis using Cons.IH by (simp split: sum.splits prod.splits)
  qed
qed

lemma empty_not_has_approach: "empty_approach_list obj \<Longrightarrow> \<not> has_approach E obj"
  by (simp add: empty_approach_list_def has_approach_def)

lemma fetch_nasa_data_Inr:
  assumes "fetch_nasa_data E cfg w = (Inr (data, d), w1)"
  shows "d = date_of (clock E (clock_reads w))"
    and "http_get E (feed_url cfg d) = Inr data"
    and "w1 = add_call (HttpGet (feed_url cfg d)) (w\<lparr>clock_reads := Suc (clock_reads w)\<rparr>)"
  using assms by (auto simp: fetch_nasa_data_def Let_def split: sum.splits)

lemma save_raw_to_gcs_Inr:
  assumes "save_raw_to_gcs E cfg data d w = (Inr u, w')"
  shows "w' = print_line (LogRawSaved (''gs://'' @ fmt_opt (BUCKET_NAME cfg) @ ''/'' @ blob_path d))
               (add_call (UploadBlob (BUCKET_NAME cfg) (blob_path d) data ''application/json'')
                  (add_call NewStorageClient w))"
  using assms by (auto simp: save_raw_to_gcs_def Let_def split: option.splits)

lemma etl_configured:
  assumes "truthy_opt (NASA_API_KEY cfg)" and "truthy_opt (BUCKET_NAME cfg)"
    and "truthy_opt (BQ_PROJECT cfg)"
    and "fetch_nasa_data E cfg (print_line LogStarting w0) = (Inr (data, d), w1)"
    and "save_raw_to_gcs E cfg data d w1 = (Inr (), w2)"
    and "transform_records E data d w2 = (Inr records, w3)"
  shows "etl_nasa_neo E cfg request w0 =
           (case (if records \<noteq> [] then load_to_bigquery E cfg records w3 else (Inr (), w3)) of
              (Inl e, w4) \<Rightarrow> (Inl e, w4)
            | (Inr u, w4) \<Rightarrow> (Inr (success_response records d), w4))"
  using assms by (simp add: etl_nasa_neo_def Let_def)

lemma load_to_bigquery_errors:
  assumes "bigquery_client E (BQ_PROJECT cfg) = None"
    and "insert_rows_json E (table_id cfg) records = Inr errors" and "errors \<noteq> []"
  shows "load_to_bigquery E cfg records w =
           (Inr (), print_line (LogInsertErrors errors)
              (add_call (InsertRows (table_id cfg) records)
                 (add_call (NewBigQueryClient (BQ_PROJECT cfg)) w)))"
  using assms by (simp add: load_to_bigquery_def Let_def)

lemma date_of_example_clock: "date_of (example_clock k) = may_first"
  by (simp add: date_of_def example_clock_def may_first_def)

lemma feed_url_example:
  "feed_url example_config may_first =
     ''https://api.nasa.gov/neo/rest/v1/feed?start_date=2024-05-01&end_date=2024-05-01&api_key=DEMO_KEY''"
  by (simp add: feed_url_def str_date_may_first example_config_def fmt_opt_def)

lemma blob_path_may_first: "blob_path may_first = ''raw/neo/2024/05/01/neo_2024-05-01.json''"
  by code_simp

lemma table_id_example: "table_id example_config = ''neo-project.nasa_neo.raw_neo_feed''"
  by (simp add: table_id_def example_config_def fmt_opt_def BQ_DATASET_def BQ_TABLE_def)

lemma example_config_truthy:
  "truthy_opt (NASA_API_KEY example_config)" "truthy_opt (BUCKET_NAME example_config)"
  "truthy_opt (BQ_PROJECT example_config)"
  by (simp_all add: truthy_opt_def example_config_def)

lemma fetch_example:
  "fetch_nasa_data (example_env p errs) example_config w =
     (Inr (p, may_first),
      add_call (HttpGet (feed_url example_config may_first)) (w\<lparr>clock_reads := Suc (clock_reads w)\<rparr>))"
  by (simp add: fetch_nasa_data_def Let_def example_env_def date_of_example_clock)

lemma save_example:
  "save_raw_to_gcs (example_env p errs) example_config data may_first w =
     (Inr (), print_line (LogRawSaved ''gs://neo-raw/raw/neo/2024/05/01/neo_2024-05-01.json'')
        (add_call (UploadBlob (Some ''neo-raw'') ''raw/neo/2024/05/01/neo_2024-05-01.json'' data
                     ''application/json'')
           (add_call NewStorageClient w)))"
  by (simp add: save_raw_to_gcs_def Let_def example_env_def blob_path_may_first example_config_def
      fmt_opt_def)

lemma transform_records_calls:
  "transform_records E data d w = (Inr recs, w') \<Longrightarrow> calls w' = calls w"
  using transform_records_success[of E data d w recs w'] by (auto simp: print_line_def)

lemma example_config_fields:
  "NASA_API_KEY example_config = Some ''DEMO_KEY''" "BUCKET_NAME example_config = Some ''neo-raw''"
  "BQ_PROJECT example_config = Some ''neo-project''"
  by (simp_all add: example_config_def)

lemma load_example:
  "load_to_bigquery (example_env p errs) example_config recs w =
     (Inr (), print_line (if errs \<noteq> [] then LogInsertErrors errs
                          else LogInserted (length recs) ''neo-project.nasa_neo.raw_neo_feed'')
        (add_call (InsertRows ''neo-project.nasa_neo.raw_neo_feed'' recs)
           (add_call (NewBigQueryClient (Some ''neo-project'')) w)))"
  by (simp add: load_to_bigquery_def Let_def table_id_example example_env_def example_config_fields)

lemma transform_empty_feed:
  "transform_records E empty_feed d w = (Inr [], print_line (LogTransformed 0) w)"
  by (simp add: transform_records_def neos_of_def empty_feed_def)

lemma map_of_del: "map_of (filter (\<lambda>kv. fst kv \<noteq> k) kvs) k' = (if k' = k then None else map_of kvs k')"
  by (induction kvs) auto

lemma map_of_upd:
  "map_of (map (\<lambda>kv. if fst kv = k then (k, f (snd kv)) else kv) kvs) k' =
     (if k' = k then map_option f (map_of kvs k) else map_of kvs k')"
  by (induction kvs) auto

lemma getitem_del_key_other: "k' \<noteq> k \<Longrightarrow> getitem (del_key k x) k' = getitem x k'"
  by (cases x) (simp_all add: map_of_del)

lemma getitem_del_key_same: "getitem x k = Inr v \<Longrightarrow> getitem (del_key k x) k = Inl (KeyError k)"
  by (cases x) (simp_all add: map_of_del)

lemma getitem_upd_key_other: "k' \<noteq> k \<Longrightarrow> getitem (upd_key k f x) k' = getitem x k'"
  by (cases x) (simp_all add: map_of_upd)

lemma getitem_upd_key_same: "getitem x k = Inr v \<Longrightarrow> getitem (upd_key k f x) k = Inr (f v)"
  by (cases x) (auto simp: map_of_upd split: option.splits)

lemmas del_simps = getitem_del_key_other getitem_del_key_same getitem_upd_key_other
  getitem_upd_key_same

lemma combinesD:
  assumes "combines E obj r"
  shows "\<exists>a tl cad v3 v4 v5 v6 v7 u2 u3 u4 u5.
      getitem obj ''close_approach_data'' = Inr cad \<and> cad = JArr (a # tl) \<and>
      getitem obj ''neo_reference_id'' = Inr (asteroid_id r) \<and>
      getitem obj ''name'' = Inr (name r) \<and>
      getitem obj ''absolute_magnitude_h'' = Inr v3 \<and>
      py_float E v3 = Inr (absolute_magnitude_h r) \<and>
      getitem obj ''estimated_diameter'' = Inr v4 \<and>
      getitem v4 ''kilometers'' = Inr v5 \<and>
      getitem v5 ''estimated_diameter_min'' = Inr v6 \<and>
      py_float E v6 = Inr (estimated_diameter_min_km r) \<and>
      getitem v5 ''estimated_diameter_max'' = Inr v7 \<and>
      py_float E v7 = Inr (estimated_diameter_max_km r) \<and>
      getitem obj ''is_potentially_hazardous_asteroid'' = Inr (is_potentially_hazardous r) \<and>
      getitem a ''close_approach_date'' = Inr (close_approach_date r) \<and>
      getitem a ''relative_velocity'' = Inr u2 \<and>
      getitem u2 ''kilometers_per_second'' = Inr u3 \<and>
      py_float E u3 = Inr (relative_velocity_km_s r) \<and>
      getitem a ''miss_distance'' = Inr u4 \<and>
      getitem u4 ''kilometers'' = Inr u5 \<and>
      py_float E u5 = Inr (miss_distance_km r) \<and>
      getitem a ''orbiting_body'' = Inr (orbiting_body r)"
proof -
  from assms obtain a where fa: "first_approach obj = Inr a"
    by (auto simp: combines_def split: sum.splits)
  then obtain cad where cad: "getitem obj ''close_approach_data'' = Inr cad" "getitem0 cad = Inr a"
    by (auto simp: first_approach_def bindE_eq_Inr)
  from assms fa have d: "getitem a ''close_approach_date'' = Inr (close_approach_date r)"
    by (simp add: combines_def)
  have "\<exists>tl. cad = JArr (a # tl)"
    using cad(2) d by (cases cad rule: getitem0.cases) auto
  then obtain tl where tl: "cad = JArr (a # tl)" by blast
  from assms fa have c:
    "getitem obj ''neo_reference_id'' = Inr (asteroid_id r)"
    "getitem obj ''name'' = Inr (name r)"
    "bindE (getitem obj ''absolute_magnitude_h'') (py_float E) = Inr (absolute_magnitude_h r)"
    "bindE (getpath obj [''estimated_diameter'', ''kilometers'', ''estimated_diameter_min''])
       (py_float E) = Inr (estimated_diameter_min_km r)"
    "bindE (getpath obj [''estimated_diameter'', ''kilometers'', ''estimated_diameter_max''])
       (py_float E) = Inr (estimated_diameter_max_km r)"
    "getitem obj ''is_potentially_hazardous_asteroid'' = Inr (is_potentially_hazardous r)"
    "bindE (getpath a [''relative_velocity'', ''kilometers_per_second''])
       (py_float E) = Inr (relative_velocity_km_s r)"
    "bindE (getpath a [''miss_distance'', ''kilometers'']) (py_float E) = Inr (miss_distance_km r)"
    "getitem a ''orbiting_body'' = Inr (orbiting_body r)"
    by (simp_all add: combines_def)
  from c(3) obtain v3 where v3: "getitem obj ''absolute_magnitude_h'' = Inr v3"
    "py_float E v3 = Inr (absolute_magnitude_h r)" by (auto simp: bindE_eq_Inr)
  from c(4) obtain v4 v5 v6 where v4: "getitem obj ''estimated_diameter'' = Inr v4"
    "getitem v4 ''kilometers'' = Inr v5" "getitem v5 ''estimated_diameter_min'' = Inr v6"
    "py_float E v6 = Inr (estimated_diameter_min_km r)" by (auto simp: bindE_eq_Inr)
  from c(5) v4 obtain v7 where v7: "getitem v5 ''estimated_diameter_max'' = Inr v7"
    "py_float E v7 = Inr (estimated_diameter_max_km r)" by (auto simp: bindE_eq_Inr)
  from c(7) obtain u2 u3 where u2: "getitem a ''relative_velocity'' = Inr u2"
    "getitem u2 ''kilometers_per_second'' = Inr u3"
    "py_float E u3 = Inr (relative_velocity_km_s r)" by (auto simp: bindE_eq_Inr)
  from c(8) obtain u4 u5 where u4: "getitem a ''miss_distance'' = Inr u4"
    "getitem u4 ''kilometers'' = Inr u5"
    "py_float E u5 = Inr (miss_distance_km r)" by (auto simp: bindE_eq_Inr)
  show ?thesis
    using cad(1) tl c(1,2,6,9) d v3 v4 v7 u2 u4 by blast
qed

lemma truthy_upd_first: "truthy E (upd_first f x) = truthy E x"
  by (cases "(f, x)" rule: upd_first.cases) simp_all

lemma transform_objs_del_field:
  assumes "combines E obj r"
  shows "p \<in> set object_fields \<Longrightarrow>
           transform_objs E (del_path p obj # rest) acc w = (Inl (KeyError (last p)), w)"
    and "p \<in> set approach_fields \<Longrightarrow>
           transform_objs E (del_approach_path p obj # rest) acc w = (Inl (KeyError (last p)), w)"
proof -
  from combinesD[OF assms] obtain a tl cad v3 v4 v5 v6 v7 u2 u3 u4 u5 where v:
      "getitem obj ''close_approach_data'' = Inr cad"
      "getitem obj ''neo_reference_id'' = Inr (asteroid_id r)"
      "getitem obj ''name'' = Inr (name r)"
      "getitem obj ''absolute_magnitude_h'' = Inr v3"
      "py_float E v3 = Inr (absolute_magnitude_h r)"
      "getitem obj ''estimated_diameter'' = Inr v4"
      "getitem v4 ''kilometers'' = Inr v5"
      "getitem v5 ''estimated_diameter_min'' = Inr v6"
      "py_float E v6 = Inr (estimated_diameter_min_km r)"
      "getitem v5 ''estimated_diameter_max'' = Inr v7"
      "py_float E v7 = Inr (estimated_diameter_max_km r)"
      "getitem obj ''is_potentially_hazardous_asteroid'' = Inr (is_potentially_hazardous r)"
      "getitem a ''close_approach_date'' = Inr (close_approach_date r)"
      "getitem a ''relative_velocity'' = Inr u2"
      "getitem u2 ''kilometers_per_second'' = Inr u3"
      "py_float E u3 = Inr (relative_velocity_km_s r)"
      "getitem a ''miss_distance'' = Inr u4"
      "getitem u4 ''kilometers'' = Inr u5"
      "py_float E u5 = Inr (miss_distance_km r)"
      "getitem a ''orbiting_body'' = Inr (orbiting_body r)"
    and cad: "cad = JArr (a # tl)"
    by (elim exE conjE)
  have 1: "\<forall>p \<in> set object_fields.
            transform_objs E (del_path p obj # rest) acc w = (Inl (KeyError (last p)), w)"
    unfolding object_fields_def
    by (simp add: del_simps v cad build_record_def record_of_def)
  have 2: "\<forall>p \<in> set approach_fields.
            transform_objs E (del_approach_path p obj # rest) acc w = (Inl (KeyError (last p)), w)"
    unfolding approach_fields_def del_approach_path_def
    by (simp add: del_simps v cad build_record_def record_of_def)
  show "transform_objs E (del_path p obj # rest) acc w = (Inl (KeyError (last p)), w)"
    if "p \<in> set object_fields" using 1 that by (rule bspec)
  show "transform_objs E (del_approach_path p obj # rest) acc w = (Inl (KeyError (last p)), w)"
    if "p \<in> set approach_fields" using 2 that by (rule bspec)
qed

lemma transform_objs_append:
  "transform_objs E (xs @ ys) acc w =
     (case transform_objs E xs acc w of
        (Inl e, w') \<Rightarrow> (Inl e, w')
      | (Inr recs, w') \<Rightarrow> transform_objs E ys recs w')"
  by (induction xs arbitrary: acc w) (auto split: sum.splits prod.splits)

lemma transform_objs_has_data:
  "transform_objs E objs acc w = (Inr recs, w') \<Longrightarrow> obj \<in> set objs \<Longrightarrow>
     \<exists>v. getitem obj ''close_approach_data'' = Inr v"
proof (induction objs arbitrary: acc w)
  case Nil
  then show ?case by simp
next
  case (Cons x rest)
  from Cons.prems(1) obtain cad where cad: "getitem x ''close_approach_data'' = Inr cad"
    by (cases "getitem x ''close_approach_data''") auto
  show ?case
  proof (cases "obj = x")
    case True
    with cad show ?thesis by blast
  next
    case False
    with Cons.prems(2) have mem: "obj \<in> set rest" by simp
    from Cons.prems(1) cad obtain acc' w1 where "transform_objs E rest acc' w1 = (Inr recs, w')"
      by (auto split: if_splits sum.splits prod.splits)
    from Cons.IH[OF this mem] show ?thesis .
  qed
qed

lemma list_all2_left_witness:
  "list_all2 P xs ys \<Longrightarrow> x \<in> set xs \<Longrightarrow> \<exists>y. P x y"
  by (induction rule: list_all2_induct) auto

lemma combines_not_lacks:
  assumes "combines E obj r"
  shows "\<not> lacks obj [''close_approach_data'']"
    and "\<not> list_ex (lacks obj) object_fields"
    and "first_approach obj = Inr a \<Longrightarrow> \<not> list_ex (lacks a) approach_fields"
proof -
  from combinesD[OF assms] obtain a' tl cad v3 v4 v5 v6 v7 u2 u3 u4 u5 where v:
      "getitem obj ''close_approach_data'' = Inr cad"
      "getitem obj ''neo_reference_id'' = Inr (asteroid_id r)"
      "getitem obj ''name'' = Inr (name r)"
      "getitem obj ''absolute_magnitude_h'' = Inr v3"
      "getitem obj ''estimated_diameter'' = Inr v4"
      "getitem v4 ''kilometers'' = Inr v5"
      "getitem v5 ''estimated_diameter_min'' = Inr v6"
      "getitem v5 ''estimated_diameter_max'' = Inr v7"
      "getitem obj ''is_potentially_hazardous_asteroid'' = Inr (is_potentially_hazardous r)"
      "getitem a' ''close_approach_date'' = Inr (close_approach_date r)"
      "getitem a' ''relative_velocity'' = Inr u2"
      "getitem u2 ''kilometers_per_second'' = Inr u3"
      "getitem a' ''miss_distance'' = Inr u4"
      "getitem u4 ''kilometers'' = Inr u5"
      "getitem a' ''orbiting_body'' = Inr (orbiting_body r)"
    and cad: "cad = JArr (a' # tl)"
    by (elim exE conjE)
  show "\<not> lacks obj [''close_approach_data'']" by (simp add: lacks_def v)
  show "\<not> list_ex (lacks obj) object_fields"
    unfolding object_fields_def by (simp add: lacks_def v)
  show "\<not> list_ex (lacks a) approach_fields" if "first_approach obj = Inr a"
  proof -
    from that have "a = a'" by (simp add: first_approach_def v cad)
    then show ?thesis unfolding approach_fields_def by (simp add: lacks_def v)
  qed
qed

lemma missing_required_raises:
  assumes "neos_of data d = Inr (JArr objs)" and "obj \<in> set objs" and "missing_required E obj"
  shows "isl (fst (transform_records E data d w))"
proof (rule ccontr)
  assume "\<not> isl (fst (transform_records E data d w))"
  then obtain recs where "fst (transform_records E data d w) = Inr recs"
    by (cases "fst (transform_records E data d w)") simp_all
  then obtain w' where t: "transform_records E data d w = (Inr recs, w')"
    by (cases "transform_records E data d w") simp
  then obtain w1 where o: "transform_objs E objs [] w = (Inr recs, w1)"
    by (auto simp: transform_records_JArr[OF assms(1)] split: prod.splits sum.splits)
  from transform_objs_has_data[OF o assms(2)]
  obtain v where "getitem obj ''close_approach_data'' = Inr v" ..
  then have nl: "\<not> lacks obj [''close_approach_data'']" by (simp add: lacks_def)
  from assms(3) have "lacks obj [''close_approach_data''] \<or>
      (has_approach E obj \<and>
       (list_ex (lacks obj) object_fields \<or>
        (case first_approach obj of
           Inl e \<Rightarrow> False
         | Inr approach \<Rightarrow> list_ex (lacks approach) approach_fields)))"
    unfolding missing_required_def .
  with nl have ha: "has_approach E obj"
    and m: "list_ex (lacks obj) object_fields \<or>
        (case first_approach obj of
           Inl e \<Rightarrow> False
         | Inr approach \<Rightarrow> list_ex (lacks approach) approach_fields)"
    by blast+
  from ha assms(2) have "obj \<in> set (filter (has_approach E) objs)" by simp
  from list_all2_left_witness[OF transform_records_Inr(1)[OF t assms(1)] this]
  obtain r where c: "combines E obj r" ..
  then obtain a where a: "first_approach obj = Inr a"
    by (cases "first_approach obj") (simp_all add: combines_def)
  from m combines_not_lacks(2)[OF c] combines_not_lacks(3)[OF c a] a
  show False by simp
qed

lemma deleted_field_raises:
  assumes "neos_of data d = Inr (JArr (pre @ broken # post))"
    and "fst (transform_objs E pre [] w) = Inr recs"
    and "combines E good r"
    and "p \<in> set object_fields \<and> broken = del_path p good \<or>
         p \<in> set approach_fields \<and> broken = del_approach_path p good"
  shows "fst (transform_records E data d w) = Inl (KeyError (last p))"
proof -
  from assms(2) obtain w1 where pre: "transform_objs E pre [] w = (Inr recs, w1)"
    by (cases "transform_objs E pre [] w") auto
  from assms(4) have "transform_objs E (broken # post) recs w1 = (Inl (KeyError (last p)), w1)"
  proof (elim disjE conjE)
    assume "p \<in> set object_fields" and "broken = del_path p good"
    then show ?thesis using transform_objs_del_field(1)[OF assms(3)] by simp
  next
    assume "p \<in> set approach_fields" and "broken = del_approach_path p good"
    then show ?thesis using transform_objs_del_field(2)[OF assms(3)] by simp
  qed
  then show ?thesis
    by (simp add: transform_records_JArr[OF assms(1)] transform_objs_append pre)
qed

lemma combines_example:
  "combines (example_env p errs) example_object (example_record ts)"
  by (rule record_of_combines[OF first_approach_example record_of_example])

lemma transform_example_objs:
  "transform_objs (example_env pl errs) [example_object] [] fresh_world =
     (Inr [example_record ''2024-05-01T06:00:00''], fresh_world\<lparr>clock_reads := Suc 0\<rparr>)"
proof -
  have cad: "getitem example_object ''close_approach_data'' = Inr (JArr [example_approach])"
    by (simp add: example_object_def)
  have "clock (example_env pl errs) = example_clock" by (simp add: example_env_def)
  then show ?thesis
    by (simp add: cad build_record_def record_of_example fresh_world_def isoformat_example_clock_0)
qed

lemma combines_record_of:
  assumes "combines E obj r" and "first_approach obj = Inr a"
  shows "record_of E obj a ts = Inr (r\<lparr>ingestion_timestamp := ts\<rparr>)"
proof -
  from assms have c:
    "getitem obj ''neo_reference_id'' = Inr (asteroid_id r)"
    "getitem obj ''name'' = Inr (name r)"
    "bindE (getitem obj ''absolute_magnitude_h'') (py_float E) = Inr (absolute_magnitude_h r)"
    "bindE (getpath obj [''estimated_diameter'', ''kilometers'', ''estimated_diameter_min''])
       (py_float E) = Inr (estimated_diameter_min_km r)"
    "bindE (getpath obj [''estimated_diameter'', ''kilometers'', ''estimated_diameter_max''])
       (py_float E) = Inr (estimated_diameter_max_km r)"
    "getitem obj ''is_potentially_hazardous_asteroid'' = Inr (is_potentially_hazardous r)"
    "getitem a ''close_approach_date'' = Inr (close_approach_date r)"
    "bindE (getpath a [''relative_velocity'', ''kilometers_per_second''])
       (py_float E) = Inr (relative_velocity_km_s r)"
    "bindE (getpath a [''miss_distance'', ''kilometers'']) (py_float E) = Inr (miss_distance_km r)"
    "getitem a ''orbiting_body'' = Inr (orbiting_body r)"
    by (simp_all add: combines_def)
  show ?thesis unfolding record_of_def by (simp only: c bindE_simps) simp
qed

lemma transform_objs_returns:
  assumes "\<forall>obj \<in> set objs. \<not> isl (getitem obj ''close_approach_data'') \<and>
             (has_approach E obj \<longrightarrow> (\<exists>r. combines E obj r))"
  shows "\<not> isl (fst (transform_objs E objs acc w))"
  using assms
proof (induction objs arbitrary: acc w)
  case Nil
  show ?case by simp
next
  case (Cons obj rest)
  from Cons.prems obtain cad where cad: "getitem obj ''close_approach_data'' = Inr cad"
    by (cases "getitem obj ''close_approach_data''") simp_all
  from Cons.prems have rest: "\<not> isl (fst (transform_objs E rest acc' w'))" for acc' w'
    by (intro Cons.IH) simp
  show ?case
  proof (cases "truthy E cad")
    case False
    then show ?thesis using cad rest by simp
  next
    case True
    with cad have "has_approach E obj" by (simp add: has_approach_def)
    with Cons.prems obtain r where r: "combines E obj r" by auto
    then obtain a where a: "first_approach obj = Inr a"
      by (cases "first_approach obj") (simp_all add: combines_def)
    with cad have g: "getitem0 cad = Inr a" by (simp add: first_approach_def)
    show ?thesis
      using cad True g rest by (simp add: build_record_def combines_record_of[OF r a])
  qed
qed

subsection \<open>The transformer\<close>



text \<open>
  Claim C2. For a payload whose \<^verbatim>\<open>near_earth_objects\<close> mapping has no entry for the
  queried date, the transformer returns the empty sequence and raises nothing; it only
  prints its count of 0 records.
\<close>

theorem absent_date_gives_no_records:
  assumes "getitem data ''near_earth_objects'' = Inr (JObj dates)"
    and "map_of dates (str_date d) = None"
  shows "transform_records E data d w = (Inr [], print_line (LogTransformed 0) w)"
  using assms by (simp add: transform_records_def neos_of_def)

theorem absent_date_witness:
  "getitem example_payload ''near_earth_objects'' = Inr (JObj [(''2024-05-01'', JArr [example_object])]) \<and>
   map_of [(''2024-05-01'', JArr [example_object])] (str_date may_second) = None \<and>
   transform_records (example_env example_payload []) example_payload may_second fresh_world =
     (Inr [], \<lparr>clock_reads = 0, calls = [], out = [LogTransformed 0]\<rparr>)"
proof -
  have g: "getitem example_payload ''near_earth_objects'' =
             Inr (JObj [(''2024-05-01'', JArr [example_object])])"
    by (simp add: example_payload_def feed_of_def)
  have m: "map_of [(''2024-05-01'', JArr [example_object])] (str_date may_second) = None"
    by (simp add: str_date_may_second)
  from absent_date_gives_no_records[OF g m, of "example_env example_payload []" fresh_world] g m
  show ?thesis by (simp add: print_line_def fresh_world_def)
qed



text \<open>
  Claim C9 says that all records of one batch carry the same ingestion timestamp. The
  source reads \<^verbatim>\<open>datetime.utcnow()\<close> inside the loop, once for each record, so two records
  of one batch differ in it as soon as the clock has advanced between them.
\<close>

theorem two_records_two_timestamps_counterexample:
  "fst (transform_records (example_env example_payload []) (feed_of [example_object, example_object])
          may_first fresh_world) =
     Inr [example_record ''2024-05-01T06:00:00'', example_record ''2024-05-01T06:00:00.001000''] \<and>
   ingestion_timestamp (example_record ''2024-05-01T06:00:00'') \<noteq>
   ingestion_timestamp (example_record ''2024-05-01T06:00:00.001000'')"
proof -
  have cad: "getitem example_object ''close_approach_data'' = Inr (JArr [example_approach])"
    by (simp add: example_object_def)
  have c: "clock (example_env example_payload []) = example_clock" by (simp add: example_env_def)
  show ?thesis
    by (simp add: transform_records_JArr[OF neos_of_feed] cad c build_record_def record_of_example
        fresh_world_def isoformat_example_clock_0 isoformat_example_clock_1 example_record_def)
qed

text \<open>
  Claim C9, amended. Within one invocation every record is stamped with the reading of the
  UTC clock taken when that record is built: one reading for each record, in the order of
  the records, so the \<open>k\<close>-th record carries the \<open>k\<close>-th reading the transformer takes.
\<close>

theorem each_record_has_its_own_clock_reading:
  assumes "transform_records E data d w = (Inr recs, w')"
  shows "map ingestion_timestamp recs =
           map (\<lambda>k. isoformat (clock E k)) [clock_reads w ..< clock_reads w + length recs] \<and>
         clock_reads w' = clock_reads w + length recs"
  using transform_records_success[OF assms] by (auto simp: print_line_def)

theorem each_record_has_its_own_clock_reading_witness:
  "transform_records (example_env example_payload []) (feed_of [example_object, example_object])
      may_first fresh_world =
     (Inr [example_record ''2024-05-01T06:00:00'', example_record ''2024-05-01T06:00:00.001000''],
      \<lparr>clock_reads = 2, calls = [], out = [LogTransformed 2]\<rparr>) \<and>
   map ingestion_timestamp
     [example_record ''2024-05-01T06:00:00'', example_record ''2024-05-01T06:00:00.001000''] =
     [isoformat (example_clock 0), isoformat (example_clock (Suc 0))]"
proof -
  let ?E = "example_env example_payload []"
  have cad: "getitem example_object ''close_approach_data'' = Inr (JArr [example_approach])"
    by (simp add: example_object_def)
  have c: "clock ?E = example_clock" by (simp add: example_env_def)
  have t: "transform_records ?E (feed_of [example_object, example_object]) may_first fresh_world =
     (Inr [example_record ''2024-05-01T06:00:00'', example_record ''2024-05-01T06:00:00.001000''],
      \<lparr>clock_reads = 2, calls = [], out = [LogTransformed 2]\<rparr>)"
    by (simp add: transform_records_JArr[OF neos_of_feed] cad c build_record_def record_of_example
        fresh_world_def isoformat_example_clock_0 isoformat_example_clock_1 print_line_def)
  have u: "[0..<2] = [0, Suc 0]" by (simp add: upt_conv_Cons)
  from each_record_has_its_own_clock_reading[OF t] t show ?thesis
    by (simp add: c fresh_world_def u)
qed

text \<open>
  Claim C10 says that an object under the date key that misses any required field makes
  the transformer raise a lookup error. An object whose close-approach list is empty is
  skipped before any other of its fields is read: it may miss all of them, and nothing is
  raised.
\<close>

theorem skipped_object_counterexample:
  "lacks bare_object [''name''] \<and>
   transform_records (example_env example_payload []) (feed_of [bare_object]) may_first fresh_world =
     (Inr [], \<lparr>clock_reads = 0, calls = [], out = [LogTransformed 0]\<rparr>)"
proof -
  have "getitem bare_object ''close_approach_data'' = Inr (JArr [])"
    by (simp add: bare_object_def)
  then show ?thesis
    by (simp add: transform_records_JArr[OF neos_of_feed] lacks_def bare_object_def
        print_line_def fresh_world_def)
qed

text \<open>
  Claim C10, amended. The empty default is for the missing date key only. A payload, a
  dictionary, without the key \<^verbatim>\<open>near_earth_objects\<close> makes the transformer raise the
  \<^verbatim>\<open>KeyError\<close> of that key. An object under the date key that misses its close-approach
  data, or whose close-approach sequence is not empty and that misses a required field of
  its own or of its first close-approach entry, makes the transformer raise: it is neither
  skipped nor given a default. The error is the \<^verbatim>\<open>KeyError\<close> of the missing field when
  nothing fails before that lookup: when the objects before it raise nothing and the
  object is one the transformer builds a record from, but for that one field taken out.
\<close>

theorem missing_fields_raise:
  "(map_of kvs ''near_earth_objects'' = None \<longrightarrow>
      transform_records E (JObj kvs) d w = (Inl (KeyError ''near_earth_objects''), w)) \<and>
   (neos_of data d = Inr (JArr objs) \<and> obj \<in> set objs \<and> missing_required E obj \<longrightarrow>
      isl (fst (transform_records E data d w))) \<and>
   (neos_of data' d = Inr (JArr (pre @ broken # post)) \<and>
    fst (transform_objs E pre [] w) = Inr recs \<and> combines E good r \<and>
    (p \<in> set object_fields \<and> broken = del_path p good \<or>
     p \<in> set approach_fields \<and> broken = del_approach_path p good) \<longrightarrow>
      fst (transform_records E data' d w) = Inl (KeyError (last p)))"
proof (intro conjI impI)
  assume "map_of kvs ''near_earth_objects'' = None"
  then show "transform_records E (JObj kvs) d w = (Inl (KeyError ''near_earth_objects''), w)"
    by (simp add: transform_records_def neos_of_def)
next
  assume "neos_of data d = Inr (JArr objs) \<and> obj \<in> set objs \<and> missing_required E obj"
  then show "isl (fst (transform_records E data d w))"
    using missing_required_raises by blast
next
  assume a: "neos_of data' d = Inr (JArr (pre @ broken # post)) \<and>
    fst (transform_objs E pre [] w) = Inr recs \<and> combines E good r \<and>
    (p \<in> set object_fields \<and> broken = del_path p good \<or>
     p \<in> set approach_fields \<and> broken = del_approach_path p good)"
  show "fst (transform_records E data' d w) = Inl (KeyError (last p))"
    by (rule deleted_field_raises[of data' d pre broken post E w recs good r p]) (use a in simp_all)
qed

theorem missing_fields_witness:
  "transform_records (example_env example_payload []) (JObj []) may_first fresh_world =
     (Inl (KeyError ''near_earth_objects''), fresh_world) \<and>
   missing_required (example_env example_payload []) (del_path [''name''] example_object) \<and>
   isl (fst (transform_records (example_env example_payload [])
          (feed_of [example_object, del_path [''name''] example_object]) may_first fresh_world)) \<and>
   fst (transform_records (example_env example_payload [])
          (feed_of ([example_object] @ del_path [''name''] example_object # [])) may_first fresh_world) =
     Inl (KeyError ''name'') \<and>
   fst (transform_records (example_env example_payload [])
          (feed_of ([example_object] @
             del_approach_path [''miss_distance'', ''kilometers''] example_object # []))
          may_first fresh_world) =
     Inl (KeyError ''kilometers'')"
proof -
  let ?E = "example_env example_payload []"
  let ?nameless = "del_path [''name''] example_object"
  let ?nomiss = "del_approach_path [''miss_distance'', ''kilometers''] example_object"
  have m: "map_of ([] :: (string \<times> rat json) list) ''near_earth_objects'' = None" by simp
  have 1: "transform_records ?E (JObj []) may_first fresh_world =
             (Inl (KeyError ''near_earth_objects''), fresh_world)"
    using missing_fields_raise[of "[]" ?E may_first fresh_world] m by blast
  have mr: "missing_required ?E ?nameless"
    by (simp add: missing_required_def lacks_def has_approach_def example_object_def
        object_fields_def)
  have b: "isl (fst (transform_records ?E (feed_of [example_object, ?nameless]) may_first
                      fresh_world))"
    using missing_fields_raise[of _ ?E may_first fresh_world "feed_of [example_object, ?nameless]"
        "[example_object, ?nameless]" ?nameless] neos_of_feed mr
    by simp
  have pre: "fst (transform_objs ?E [example_object] [] fresh_world) =
               Inr [example_record ''2024-05-01T06:00:00'']"
    by (simp only: transform_example_objs fst_conv)
  have c: "combines ?E example_object (example_record [])" by (rule combines_example)
  have f1: "[''name''] \<in> set object_fields" by (simp add: object_fields_def)
  have f2: "[''miss_distance'', ''kilometers''] \<in> set approach_fields"
    by (simp add: approach_fields_def)
  have 2: "fst (transform_records ?E (feed_of ([example_object] @ ?nameless # [])) may_first
                  fresh_world) = Inl (KeyError (last [''name'']))"
    using missing_fields_raise[of _ ?E may_first fresh_world _ _ _
        "feed_of ([example_object] @ ?nameless # [])" "[example_object]" ?nameless "[]"
        "[example_record ''2024-05-01T06:00:00'']" example_object "example_record []" "[''name'']"]
      neos_of_feed pre c f1 by blast
  have 3: "fst (transform_records ?E (feed_of ([example_object] @ ?nomiss # [])) may_first
                  fresh_world) = Inl (KeyError (last [''miss_distance'', ''kilometers'']))"
    using missing_fields_raise[of _ ?E may_first fresh_world _ _ _
        "feed_of ([example_object] @ ?nomiss # [])" "[example_object]" ?nomiss "[]"
        "[example_record ''2024-05-01T06:00:00'']" example_object "example_record []"
        "[''miss_distance'', ''kilometers'']"]
      neos_of_feed pre c f2 by blast
  from 1 mr b 2 3 show ?thesis by simp
qed

subsection \<open>The loader and the entry point\<close>

text \<open>
  Claim C4. On a configured run whose fetch, archive and transform steps return, with a
  record sequence that is not empty: when the warehouse client is built and the insert call
  answers with row errors, the loader prints them and returns without raising, from any
  state, and the response of the entry point is the success response, with status 200 and
  \<^verbatim>\<open>rows_inserted\<close> the number of transformed records. The row errors do not occur in it.
\<close>

theorem insert_errors_do_not_change_the_response:
  assumes "truthy_opt (NASA_API_KEY cfg)" and "truthy_opt (BUCKET_NAME cfg)"
    and "truthy_opt (BQ_PROJECT cfg)"
    and "fetch_nasa_data E cfg (print_line LogStarting w0) = (Inr (data, d), w1)"
    and "save_raw_to_gcs E cfg data d w1 = (Inr (), w2)"
    and "transform_records E data d w2 = (Inr records, w3)"
    and "records \<noteq> []"
    and "bigquery_client E (BQ_PROJECT cfg) = None"
    and "insert_rows_json E (table_id cfg) records = Inr errors"
    and "errors \<noteq> []"
  shows "(\<forall>w. load_to_bigquery E cfg records w =
            (Inr (), print_line (LogInsertErrors errors)
               (add_call (InsertRows (table_id cfg) records)
                  (add_call (NewBigQueryClient (BQ_PROJECT cfg)) w)))) \<and>
         fst (etl_nasa_neo E cfg request w0) =
           Inr \<lparr>body = JsonDumps (JObj [(''status'', JStr ''success''),
                                        (''rows_inserted'', JInt (int (length records))),
                                        (''date'', JStr (str_date d))]),
                status = 200, headers = [(''Content-Type'', ''application/json'')]\<rparr>"
proof -
  have l: "load_to_bigquery E cfg records w =
            (Inr (), print_line (LogInsertErrors errors)
               (add_call (InsertRows (table_id cfg) records)
                  (add_call (NewBigQueryClient (BQ_PROJECT cfg)) w)))" for w
    using assms(8-10) by (rule load_to_bigquery_errors)
  have "fst (etl_nasa_neo E cfg request w0) = Inr (success_response records d)"
    using assms(7) by (simp add: etl_configured[OF assms(1-6)] l)
  then show ?thesis using l by (simp add: success_response_def response_body_def)
qed

theorem insert_errors_witness:
  "insert_rows_json (example_env example_payload [row_error]) (table_id example_config)
     [example_record ''2024-05-01T06:00:00.001000''] = Inr [row_error] \<and>
   load_to_bigquery (example_env example_payload [row_error]) example_config
     [example_record ''2024-05-01T06:00:00.001000''] fresh_world =
     (Inr (), \<lparr>clock_reads = 0,
               calls = [NewBigQueryClient (Some ''neo-project''),
                        InsertRows ''neo-project.nasa_neo.raw_neo_feed''
                          [example_record ''2024-05-01T06:00:00.001000'']],
               out = [LogInsertErrors [row_error]]\<rparr>) \<and>
   fst (etl_nasa_neo (example_env example_payload [row_error]) example_config () fresh_world) =
     Inr \<lparr>body = JsonDumps (JObj [(''status'', JStr ''success''), (''rows_inserted'', JInt 1),
                                  (''date'', JStr ''2024-05-01'')]),
          status = 200, headers = [(''Content-Type'', ''application/json'')]\<rparr>"
proof -
  let ?E = "example_env example_payload [row_error]"
  let ?r = "example_record ''2024-05-01T06:00:00.001000''"
  let ?w1 = "add_call (HttpGet (feed_url example_config may_first))
               ((print_line LogStarting fresh_world)\<lparr>clock_reads := Suc 0\<rparr>)"
  let ?w2 = "print_line (LogRawSaved ''gs://neo-raw/raw/neo/2024/05/01/neo_2024-05-01.json'')
        (add_call (UploadBlob (Some ''neo-raw'') ''raw/neo/2024/05/01/neo_2024-05-01.json''
                     example_payload ''application/json'')
           (add_call NewStorageClient ?w1))"
  let ?w3 = "print_line (LogTransformed 1) (?w2\<lparr>clock_reads := Suc (Suc 0)\<rparr>)"
  have f: "fetch_nasa_data ?E example_config (print_line LogStarting fresh_world) =
             (Inr (example_payload, may_first), ?w1)"
    by (simp add: fetch_example print_line_def fresh_world_def)
  have s: "save_raw_to_gcs ?E example_config example_payload may_first ?w1 = (Inr (), ?w2)"
    by (rule save_example)
  have t: "transform_records ?E example_payload may_first ?w2 = (Inr [?r], ?w3)"
    by (simp add: transform_example print_line_def add_call_def isoformat_example_clock_1)
  have ne: "[?r] \<noteq> []" by simp
  have b: "bigquery_client ?E (BQ_PROJECT example_config) = None" by (simp add: example_env_def)
  have i: "insert_rows_json ?E (table_id example_config) [?r] = Inr [row_error]"
    by (simp add: example_env_def)
  have e: "[row_error] \<noteq> []" by simp
  note c = insert_errors_do_not_change_the_response[OF example_config_truthy f s t ne b i e, of "()"]
  from c have "load_to_bigquery ?E example_config [?r] fresh_world =
            (Inr (), print_line (LogInsertErrors [row_error])
               (add_call (InsertRows (table_id example_config) [?r])
                  (add_call (NewBigQueryClient (BQ_PROJECT example_config)) fresh_world)))"
    by blast
  moreover from c have "fst (etl_nasa_neo ?E example_config () fresh_world) =
           Inr \<lparr>body = JsonDumps (JObj [(''status'', JStr ''success''),
                                        (''rows_inserted'', JInt (int (length [?r]))),
                                        (''date'', JStr (str_date may_first))]),
                status = 200, headers = [(''Content-Type'', ''application/json'')]\<rparr>"
    by blast
  ultimately show ?thesis using i
    by (simp add: str_date_may_first table_id_example print_line_def add_call_def fresh_world_def
        example_config_fields)
qed

text \<open>
  Claim C5. If one of the three configuration values is absent, the entry point returns
  the fixed message with status 500, and it has made no external call and read no clock:
  the state differs from the initial one by the two printed lines only.
\<close>

theorem missing_configuration_aborts:
  assumes "NASA_API_KEY cfg = None \<or> BUCKET_NAME cfg = None \<or> BQ_PROJECT cfg = None"
  shows "etl_nasa_neo E cfg request w =
           (Inr \<lparr>body = PlainText ''Missing required environment variables'', status = 500,
                 headers = []\<rparr>,
            print_line LogMissingEnv (print_line LogStarting w)) \<and>
         calls (snd (etl_nasa_neo E cfg request w)) = calls w \<and>
         clock_reads (snd (etl_nasa_neo E cfg request w)) = clock_reads w"
proof -
  from assms have
    "\<not> (truthy_opt (NASA_API_KEY cfg) \<and> truthy_opt (BUCKET_NAME cfg) \<and> truthy_opt (BQ_PROJECT cfg))"
    by (auto simp: truthy_opt_def)
  then show ?thesis
    by (simp add: etl_nasa_neo_def Let_def missing_env_response_def print_line_def)
qed

theorem missing_configuration_witness:
  "(NASA_API_KEY no_bucket_config = None \<or> BUCKET_NAME no_bucket_config = None \<or>
    BQ_PROJECT no_bucket_config = None) \<and>
   etl_nasa_neo (example_env example_payload []) no_bucket_config () fresh_world =
     (Inr \<lparr>body = PlainText ''Missing required environment variables'', status = 500,
           headers = []\<rparr>,
      \<lparr>clock_reads = 0, calls = [], out = [LogStarting, LogMissingEnv]\<rparr>) \<and>
   calls (snd (etl_nasa_neo (example_env example_payload []) no_bucket_config () fresh_world)) = []"
proof -
  have h: "NASA_API_KEY no_bucket_config = None \<or> BUCKET_NAME no_bucket_config = None \<or>
           BQ_PROJECT no_bucket_config = None"
    by (simp add: no_bucket_config_def)
  from missing_configuration_aborts[OF h, of "example_env example_payload []" "()" fresh_world] h
  show ?thesis by (simp add: print_line_def fresh_world_def)
qed

text \<open>
  Claim C7 says that the loader is a no-op when given an empty record sequence.
  \<^verbatim>\<open>load_to_bigquery\<close> has no test of its argument: given the empty sequence it builds the
  client and issues the insert call, with no rows.
\<close>

theorem loader_called_on_empty_batch_counterexample:
  "load_to_bigquery (example_env example_payload []) example_config [] fresh_world =
     (Inr (), \<lparr>clock_reads = 0,
               calls = [NewBigQueryClient (Some ''neo-project''),
                        InsertRows ''neo-project.nasa_neo.raw_neo_feed'' []],
               out = [LogInserted 0 ''neo-project.nasa_neo.raw_neo_feed'']\<rparr>)"
  by (simp add: load_example print_line_def add_call_def fresh_world_def)

text \<open>
  Claim C7, amended. The entry point does not call the loader when the transformed
  sequence is empty: on such a run the external calls are the fetch, the construction of
  the storage client and the upload, and no others, and the response reports 0 rows.
\<close>

theorem empty_batch_is_not_loaded:
  assumes "truthy_opt (NASA_API_KEY cfg)" and "truthy_opt (BUCKET_NAME cfg)"
    and "truthy_opt (BQ_PROJECT cfg)"
    and "fetch_nasa_data E cfg (print_line LogStarting w0) = (Inr (data, d), w1)"
    and "save_raw_to_gcs E cfg data d w1 = (Inr (), w2)"
    and "transform_records E data d w2 = (Inr [], w3)"
  shows "etl_nasa_neo E cfg request w0 = (Inr (success_response [] d), w3) \<and>
         calls w3 = calls w0 @ [HttpGet (feed_url cfg d), NewStorageClient,
                       UploadBlob (BUCKET_NAME cfg) (blob_path d) data ''application/json'']"
proof -
  have "calls w3 = calls w2" using assms(6) by (rule transform_records_calls)
  also have "\<dots> = calls w1 @ [NewStorageClient,
                       UploadBlob (BUCKET_NAME cfg) (blob_path d) data ''application/json'']"
    using save_raw_to_gcs_Inr[OF assms(5)] by (simp add: print_line_def add_call_def)
  also have "calls w1 = calls w0 @ [HttpGet (feed_url cfg d)]"
    using fetch_nasa_data_Inr(3)[OF assms(4)] by (simp add: print_line_def add_call_def)
  finally show ?thesis by (simp add: etl_configured[OF assms(1-6)])
qed

theorem empty_batch_witness:
  "etl_nasa_neo (example_env empty_feed []) example_config () fresh_world =
     (Inr \<lparr>body = JsonDumps (JObj [(''status'', JStr ''success''), (''rows_inserted'', JInt 0),
                                   (''date'', JStr ''2024-05-01'')]),
           status = 200, headers = [(''Content-Type'', ''application/json'')]\<rparr>,
      \<lparr>clock_reads = 1,
       calls = [HttpGet ''https://api.nasa.gov/neo/rest/v1/feed?start_date=2024-05-01&end_date=2024-05-01&api_key=DEMO_KEY'',
                NewStorageClient,
                UploadBlob (Some ''neo-raw'') ''raw/neo/2024/05/01/neo_2024-05-01.json'' empty_feed
                  ''application/json''],
       out = [LogStarting, LogRawSaved ''gs://neo-raw/raw/neo/2024/05/01/neo_2024-05-01.json'',
              LogTransformed 0]\<rparr>)"
proof -
  let ?E = "example_env empty_feed []"
  let ?w1 = "add_call (HttpGet (feed_url example_config may_first))
               ((print_line LogStarting fresh_world)\<lparr>clock_reads := Suc 0\<rparr>)"
  let ?w2 = "print_line (LogRawSaved ''gs://neo-raw/raw/neo/2024/05/01/neo_2024-05-01.json'')
        (add_call (UploadBlob (Some ''neo-raw'') ''raw/neo/2024/05/01/neo_2024-05-01.json''
                     empty_feed ''application/json'')
           (add_call NewStorageClient ?w1))"
  let ?w3 = "print_line (LogTransformed 0) ?w2"
  have f: "fetch_nasa_data ?E example_config (print_line LogStarting fresh_world) =
             (Inr (empty_feed, may_first), ?w1)"
    by (simp add: fetch_example print_line_def fresh_world_def)
  have s: "save_raw_to_gcs ?E example_config empty_feed may_first ?w1 = (Inr (), ?w2)"
    by (rule save_example)
  have t: "transform_records ?E empty_feed may_first ?w2 = (Inr [], ?w3)"
    by (rule transform_empty_feed)
  from empty_batch_is_not_loaded[OF example_config_truthy f s t, of "()"]
  show ?thesis
    by (simp add: success_response_def response_body_def str_date_may_first feed_url_example
        print_line_def add_call_def fresh_world_def)
qed

text \<open>
  Claim C8. On a configured run on which no step raises, the entry point returns status
  200 with the \<^verbatim>\<open>json.dumps\<close> text of the dictionary of exactly the three keys
  \<^verbatim>\<open>status\<close> = "success", \<^verbatim>\<open>rows_inserted\<close> = the number of transformed records and
  \<^verbatim>\<open>date\<close> = the string of the date queried: the UTC date read at the start of the
  fetch, for which the feed was asked and answered the payload.
\<close>

theorem successful_run_response:
  assumes "truthy_opt (NASA_API_KEY cfg)" and "truthy_opt (BUCKET_NAME cfg)"
    and "truthy_opt (BQ_PROJECT cfg)"
    and "fetch_nasa_data E cfg (print_line LogStarting w0) = (Inr (data, d), w1)"
    and "save_raw_to_gcs E cfg data d w1 = (Inr (), w2)"
    and "transform_records E data d w2 = (Inr records, w3)"
    and "records \<noteq> [] \<Longrightarrow> fst (load_to_bigquery E cfg records w3) = Inr ()"
  shows "fst (etl_nasa_neo E cfg request w0) =
           Inr \<lparr>body = JsonDumps (JObj [(''status'', JStr ''success''),
                                        (''rows_inserted'', JInt (int (length records))),
                                        (''date'', JStr (str_date d))]),
                status = 200, headers = [(''Content-Type'', ''application/json'')]\<rparr> \<and>
         d = date_of (clock E (clock_reads w0)) \<and>
         http_get E (feed_url cfg d) = Inr data"
proof -
  have d: "d = date_of (clock E (clock_reads w0))"
    using fetch_nasa_data_Inr(1)[OF assms(4)] by (simp add: print_line_def)
  have q: "http_get E (feed_url cfg d) = Inr data"
    using assms(4) by (rule fetch_nasa_data_Inr(2))
  have "fst (etl_nasa_neo E cfg request w0) = Inr (success_response records d)"
  proof (cases "records = []")
    case True
    then show ?thesis by (simp add: etl_configured[OF assms(1-6)])
  next
    case False
    with assms(7) have "fst (load_to_bigquery E cfg records w3) = Inr ()" by simp
    then show ?thesis using False
      by (cases "load_to_bigquery E cfg records w3") (simp add: etl_configured[OF assms(1-6)])
  qed
  then have "fst (etl_nasa_neo E cfg request w0) =
           Inr \<lparr>body = JsonDumps (JObj [(''status'', JStr ''success''),
                                        (''rows_inserted'', JInt (int (length records))),
                                        (''date'', JStr (str_date d))]),
                status = 200, headers = [(''Content-Type'', ''application/json'')]\<rparr>"
    by (simp add: success_response_def response_body_def)
  with d q show ?thesis by blast
qed

theorem successful_run_witness:
  "fst (etl_nasa_neo (example_env example_payload []) example_config () fresh_world) =
     Inr \<lparr>body = JsonDumps (JObj [(''status'', JStr ''success''), (''rows_inserted'', JInt 1),
                                  (''date'', JStr ''2024-05-01'')]),
          status = 200, headers = [(''Content-Type'', ''application/json'')]\<rparr> \<and>
   may_first = date_of (example_clock 0) \<and>
   fst (load_to_bigquery (example_env example_payload []) example_config
          [example_record ''2024-05-01T06:00:00.001000''] fresh_world) = Inr ()"
proof -
  let ?E = "example_env example_payload []"
  let ?r = "example_record ''2024-05-01T06:00:00.001000''"
  let ?w1 = "add_call (HttpGet (feed_url example_config may_first))
               ((print_line LogStarting fresh_world)\<lparr>clock_reads := Suc 0\<rparr>)"
  let ?w2 = "print_line (LogRawSaved ''gs://neo-raw/raw/neo/2024/05/01/neo_2024-05-01.json'')
        (add_call (UploadBlob (Some ''neo-raw'') ''raw/neo/2024/05/01/neo_2024-05-01.json''
                     example_payload ''application/json'')
           (add_call NewStorageClient ?w1))"
  let ?w3 = "print_line (LogTransformed 1) (?w2\<lparr>clock_reads := Suc (Suc 0)\<rparr>)"
  have f: "fetch_nasa_data ?E example_config (print_line LogStarting fresh_world) =
             (Inr (example_payload, may_first), ?w1)"
    by (simp add: fetch_example print_line_def fresh_world_def)
  have s: "save_raw_to_gcs ?E example_config example_payload may_first ?w1 = (Inr (), ?w2)"
    by (rule save_example)
  have t: "transform_records ?E example_payload may_first ?w2 = (Inr [?r], ?w3)"
    by (simp add: transform_example print_line_def add_call_def isoformat_example_clock_1)
  have l: "[?r] \<noteq> [] \<Longrightarrow> fst (load_to_bigquery ?E example_config [?r] ?w3) = Inr ()"
    by (simp add: load_example)
  from successful_run_response[OF example_config_truthy f s t l, of "()"]
  show ?thesis by (simp add: str_date_may_first fresh_world_def load_example date_of_example_clock)
qed

end
